theory Spec2Isabelle
  imports Main "HOL-Library.AList"
begin

section \<open>Python exceptions\<close>

text \<open>
  The exceptions that the modelled code raises or lets through.
  \<open>NoResultsPending\<close> and \<open>NoWorkersAvailable\<close> are the two classes of
  \<^verbatim>\<open>thread_pool.py\<close>; \<open>Queue_Empty\<close> and \<open>Queue_Full\<close> are \<^verbatim>\<open>queue.Empty\<close> and
  \<^verbatim>\<open>queue.Full\<close>; \<open>Other_Error\<close> stands for any exception raised by client code
  (a callable or a callback), named by its text.
\<close>

datatype py_error =
    NoResultsPending
  | NoWorkersAvailable
  | AssertionError
  | TypeError
  | ValueError
  | AttributeError
  | KeyError
  | Queue_Empty
  | Queue_Full
  | Other_Error string

section \<open>The standard queue\<close>

text \<open>
  \<^verbatim>\<open>queue.Queue(maxsize)\<close> is a FIFO list with a capacity; \<open>maxsize \<le> 0\<close> means
  unbounded. One call is modelled on the queue as it stands when the call is made. A call
  that would suspend the thread until another thread acts on the queue has the outcome
  \<open>Put_Waits\<close> / \<open>Get_Waits\<close>; a timed wait that nobody interrupts ends in
  \<^verbatim>\<open>Full\<close> / \<^verbatim>\<open>Empty\<close>. Of a timeout only the sign is observable here, so it is an
  \<open>int option\<close> (\<open>None\<close> is Python's \<^verbatim>\<open>None\<close>).
\<close>

datatype 'x put_result = Put_Done "'x list" | Put_Raises py_error | Put_Waits

datatype 'x get_result = Get_Done 'x "'x list" | Get_Raises py_error | Get_Waits

definition Queue_full :: "int \<Rightarrow> 'x list \<Rightarrow> bool" where
  "Queue_full maxsize q \<longleftrightarrow> 0 < maxsize \<and> maxsize \<le> int (length q)"

definition Queue_put :: "int \<Rightarrow> 'x list \<Rightarrow> 'x \<Rightarrow> bool \<Rightarrow> int option \<Rightarrow> 'x put_result" where
  "Queue_put maxsize q item block timeout =
     (if 0 < maxsize then
        (if \<not> block then
           (if maxsize \<le> int (length q) then Put_Raises Queue_Full else Put_Done (q @ [item]))
         else (case timeout of
             None \<Rightarrow> (if maxsize \<le> int (length q) then Put_Waits else Put_Done (q @ [item]))
           | Some t \<Rightarrow>
               (if t < 0 then Put_Raises ValueError
                else if maxsize \<le> int (length q) then Put_Raises Queue_Full
                else Put_Done (q @ [item]))))
      else Put_Done (q @ [item]))"

definition Queue_get :: "'x list \<Rightarrow> bool \<Rightarrow> int option \<Rightarrow> 'x get_result" where
  "Queue_get q block timeout =
     (if \<not> block then
        (case q of [] \<Rightarrow> Get_Raises Queue_Empty | item # rest \<Rightarrow> Get_Done item rest)
      else (case timeout of
          None \<Rightarrow> (case q of [] \<Rightarrow> Get_Waits | item # rest \<Rightarrow> Get_Done item rest)
        | Some t \<Rightarrow>
            (if t < 0 then Get_Raises ValueError
             else (case q of [] \<Rightarrow> Get_Raises Queue_Empty | item # rest \<Rightarrow> Get_Done item rest))))"

section \<open>Work requests\<close>

text \<open>
  A \<^verbatim>\<open>WorkRequest\<close> object. \<open>'f\<close> is the type of function objects (the callable and
  the two callbacks, \<open>None\<close> when absent), \<open>'v\<close> the type of the opaque Python values
  passed around (arguments, results). The first seven fields are the attributes that
  \<^verbatim>\<open>__init__\<close> sets. \<open>requestID\<close> is the instance attribute of that name: the
  constructor never sets it, so it is \<open>None\<close> (absent) unless client code has attached
  it to the object, and reading it while absent raises \<^verbatim>\<open>AttributeError\<close>.
\<close>

record ('f, 'v) work_request =
  request_id :: int
  exception :: bool
  callback :: "'f option"
  exc_callback :: "'f option"
  callable :: 'f
  args :: "'v list"
  kwds :: "(string \<times> 'v) list"
  requestID :: "int option"

text \<open>
  \<^verbatim>\<open>WorkRequest.__init__\<close>. The builtin \<^verbatim>\<open>hash\<close> is the parameter \<open>hash\<close>
  (\<open>None\<close> when the value is unhashable and \<^verbatim>\<open>hash\<close> raises \<^verbatim>\<open>TypeError\<close>);
  \<open>self_id\<close> is \<^verbatim>\<open>id(self)\<close> of the object under construction.
\<close>

definition WorkRequest_init ::
  "('k \<Rightarrow> int option) \<Rightarrow> int \<Rightarrow> 'f \<Rightarrow> 'v list option \<Rightarrow> (string \<times> 'v) list option \<Rightarrow>
     'k option \<Rightarrow> 'f option \<Rightarrow> 'f option \<Rightarrow> py_error + ('f, 'v) work_request" where
  "WorkRequest_init hash self_id callable' args' kwds' request_id' callback' exc_callback' =
     (case (case request_id' of
              None \<Rightarrow> Inr self_id
            | Some k \<Rightarrow> (case hash k of None \<Rightarrow> Inl TypeError | Some h \<Rightarrow> Inr h)) of
        Inl e \<Rightarrow> Inl e
      | Inr rid \<Rightarrow>
          Inr \<lparr> request_id = rid,
                exception = False,
                callback = callback',
                exc_callback = exc_callback',
                callable = callable',
                args = (case args' of None \<Rightarrow> [] | Some a \<Rightarrow> a),
                kwds = (case kwds' of None \<Rightarrow> [] | Some k \<Rightarrow> k),
                requestID = None \<rparr>)"

section \<open>The thread pool\<close>

text \<open>
  What a worker puts on the results queue next to the request: the callable's return
  value, or \<^verbatim>\<open>sys.exc_info()\<close> of the exception it raised.
\<close>

datatype 'v payload = Value 'v | Exc_Info py_error

text \<open>
  The state of a \<^verbatim>\<open>ThreadPool\<close>: the two queues with their capacities, the lists of
  active and dismissed workers (named by numbers), and the dictionary
  \<^verbatim>\<open>workRequests\<close>, an association list in insertion order. \<open>calls\<close> is the
  observation log of callback invocations made by \<^verbatim>\<open>poll\<close>: function object, request
  and second argument, oldest first. \<open>invoked\<close> is the observation log of the
  callables that workers have called, with their arguments.
\<close>

record ('f, 'v) pool =
  q_size :: int
  resq_size :: int
  requests_queue :: "('f, 'v) work_request list"
  results_queue :: "(('f, 'v) work_request \<times> 'v payload) list"
  workers :: "nat list"
  dismissedWorkers :: "nat list"
  workRequests :: "(int \<times> ('f, 'v) work_request) list"
  calls :: "('f \<times> ('f, 'v) work_request \<times> 'v payload) list"
  invoked :: "('f \<times> 'v list \<times> (string \<times> 'v) list) list"

text \<open>
  \<^verbatim>\<open>ThreadPool.__init__\<close>: empty queues of the given sizes, an empty dictionary, and
  \<^verbatim>\<open>num_workers\<close> new workers, here numbered from 0.
\<close>

definition ThreadPool_init :: "nat \<Rightarrow> int \<Rightarrow> int \<Rightarrow> ('f, 'v) pool" where
  "ThreadPool_init num_workers q_size' resq_size' =
     \<lparr> q_size = q_size',
       resq_size = resq_size',
       requests_queue = [],
       results_queue = [],
       workers = [0..<num_workers],
       dismissedWorkers = [],
       workRequests = [],
       calls = [],
       invoked = [] \<rparr>"

text \<open>What a pool operation does: return, raise, or wait on a queue.\<close>

datatype outcome = Returned | Raised py_error | Blocked

text \<open>\<^verbatim>\<open>ThreadPool.put_request\<close>.\<close>

definition put_request ::
  "('f, 'v) work_request \<Rightarrow> bool \<Rightarrow> int option \<Rightarrow> ('f, 'v) pool \<Rightarrow> outcome \<times> ('f, 'v) pool" where
  "put_request request block timeout s =
     (if exception request then (Raised AssertionError, s)
      else (case Queue_put (q_size s) (requests_queue s) request block timeout of
          Put_Raises e \<Rightarrow> (Raised e, s)
        | Put_Waits \<Rightarrow> (Blocked, s)
        | Put_Done q' \<Rightarrow>
            (Returned,
             s\<lparr> requests_queue := q',
                workRequests := AList.update (request_id request) request (workRequests s) \<rparr>)))"

text \<open>
  Calling a callback from \<^verbatim>\<open>poll\<close>. What the callback does is given by the parameter
  \<open>cb\<close>: \<open>None\<close> when it returns, \<open>Some e\<close> when it raises \<open>e\<close>. The call is logged.
\<close>

type_synonym ('f, 'v) callbacks = "'f \<Rightarrow> ('f, 'v) work_request \<Rightarrow> 'v payload \<Rightarrow> py_error option"

definition invoke_callback ::
  "('f, 'v) callbacks \<Rightarrow> 'f \<Rightarrow> ('f, 'v) work_request \<Rightarrow> 'v payload \<Rightarrow> ('f, 'v) pool \<Rightarrow>
     py_error option \<times> ('f, 'v) pool" where
  "invoke_callback cb f request result s =
     (cb f request result, s\<lparr> calls := calls s @ [(f, request, result)] \<rparr>)"

text \<open>
  The statements of \<^verbatim>\<open>poll\<close>'s \<^verbatim>\<open>try\<close> block after the \<^verbatim>\<open>get\<close>: the two guarded
  callback calls and \<^verbatim>\<open>del self.workRequests[request.requestID]\<close>. The result is the
  exception that leaves the block, if any.
\<close>

definition poll_deliver ::
  "('f, 'v) callbacks \<Rightarrow> ('f, 'v) work_request \<Rightarrow> 'v payload \<Rightarrow> ('f, 'v) pool \<Rightarrow>
     py_error option \<times> ('f, 'v) pool" where
  "poll_deliver cb request result s =
     (case (case exc_callback request of
              Some f \<Rightarrow> (if exception request then invoke_callback cb f request result s
                         else (None, s))
            | None \<Rightarrow> (None, s)) of
        (Some e, s1) \<Rightarrow> (Some e, s1)
      | (None, s1) \<Rightarrow>
          (case (case callback request of
                   Some g \<Rightarrow>
                     (if \<not> (exception request \<and> exc_callback request \<noteq> None)
                      then invoke_callback cb g request result s1 else (None, s1))
                 | None \<Rightarrow> (None, s1)) of
             (Some e, s2) \<Rightarrow> (Some e, s2)
           | (None, s2) \<Rightarrow>
               (case requestID request of
                  None \<Rightarrow> (Some AttributeError, s2)
                | Some k \<Rightarrow>
                    (case map_of (workRequests s2) k of
                       None \<Rightarrow> (Some KeyError, s2)
                     | Some _ \<Rightarrow>
                         (None, s2\<lparr> workRequests := AList.delete k (workRequests s2) \<rparr>)))))"

lemma results_queue_invoke_callback:
  "results_queue (snd (invoke_callback cb f request result s)) = results_queue s"
  by (simp add: invoke_callback_def)

lemma results_queue_poll_deliver:
  "results_queue (snd (poll_deliver cb request result s)) = results_queue s"
  by (simp add: poll_deliver_def invoke_callback_def split: option.splits prod.splits)

lemma poll_deliver_results_queue:
  "(x, s') = poll_deliver cb request result s \<Longrightarrow> results_queue s' = results_queue s"
  using results_queue_poll_deliver [of cb request result s] by (metis snd_conv)

lemma Queue_get_shorter:
  "Queue_get q block timeout = Get_Done item rest \<Longrightarrow> length rest < length q"
  by (auto simp: Queue_get_def split: if_splits option.splits list.splits)

text \<open>
  \<^verbatim>\<open>ThreadPool.poll\<close>: the \<^verbatim>\<open>while True\<close> loop. \<^verbatim>\<open>queue.Empty\<close> leaving the
  \<^verbatim>\<open>try\<close> block is caught and ends the loop; any other exception leaves \<^verbatim>\<open>poll\<close>.
\<close>

function poll ::
  "('f, 'v) callbacks \<Rightarrow> bool \<Rightarrow> ('f, 'v) pool \<Rightarrow> outcome \<times> ('f, 'v) pool" where
  "poll cb block s =
     (if workRequests s = [] then (Raised NoResultsPending, s)
      else if block \<and> workers s = [] then (Raised NoWorkersAvailable, s)
      else (case Queue_get (results_queue s) block None of
          Get_Raises e \<Rightarrow> (if e = Queue_Empty then (Returned, s) else (Raised e, s))
        | Get_Waits \<Rightarrow> (Blocked, s)
        | Get_Done item rest \<Rightarrow>
            (case poll_deliver cb (fst item) (snd item) (s\<lparr> results_queue := rest \<rparr>) of
               (Some e, s') \<Rightarrow> (if e = Queue_Empty then (Returned, s') else (Raised e, s'))
             | (None, s') \<Rightarrow> poll cb block s')))"
  by pat_completeness auto
termination
  by (relation "measure (\<lambda>(cb, block, s). length (results_queue s))")
    (auto dest!: poll_deliver_results_queue simp: Queue_get_shorter)

declare poll.simps [simp del]

lemma poll_results_queue_le:
  "poll cb block s = (out, s') \<Longrightarrow> length (results_queue s') \<le> length (results_queue s)"
proof (induction cb block s arbitrary: out s' rule: poll.induct)
  case (1 cb block s)
  show ?case
  proof (cases "Queue_get (results_queue s) block None")
    case (Get_Done item rest)
    obtain r t where d: "poll_deliver cb (fst item) (snd item) (s\<lparr>results_queue := rest\<rparr>) = (r, t)"
      by (cases "poll_deliver cb (fst item) (snd item) (s\<lparr>results_queue := rest\<rparr>)")
    have t: "results_queue t = rest"
      using poll_deliver_results_queue [OF d [symmetric]] by simp
    have len: "length rest < length (results_queue s)"
      using Get_Done by (rule Queue_get_shorter)
    show ?thesis
    proof (cases r)
      case None
      show ?thesis
      proof (cases "workRequests s = [] \<or> (block \<and> workers s = [])")
        case True
        with "1.prems" show ?thesis
          by (auto simp: poll.simps [of cb block s] split: if_splits)
      next
        case False
        then have w: "workRequests s \<noteq> []" and nb: "\<not> (block \<and> workers s = [])"
          by auto
        from "1.prems" Get_Done d None w nb have "poll cb block t = (out, s')"
          by (auto simp: poll.simps [of cb block s])
        from "1.IH" [OF w nb Get_Done d [symmetric] None this]
        have "length (results_queue s') \<le> length (results_queue t)" .
        with t len show ?thesis by simp
      qed
    next
      case (Some e)
      with "1.prems" Get_Done d t len show ?thesis
        by (auto simp: poll.simps [of cb block s] split: if_splits)
    qed
  next
    case (Get_Raises e)
    with "1.prems" show ?thesis
      by (auto simp: poll.simps [of cb block s] split: if_splits)
  next
    case Get_Waits
    with "1.prems" show ?thesis
      by (auto simp: poll.simps [of cb block s] split: if_splits)
  qed
qed

lemma poll_blocking_Returned_shorter:
  assumes "poll cb True s = (Returned, s')"
  shows "length (results_queue s') < length (results_queue s)"
proof (cases "Queue_get (results_queue s) True None")
  case (Get_Done item rest)
  obtain r t where d: "poll_deliver cb (fst item) (snd item) (s\<lparr>results_queue := rest\<rparr>) = (r, t)"
    by (cases "poll_deliver cb (fst item) (snd item) (s\<lparr>results_queue := rest\<rparr>)")
  have t: "results_queue t = rest"
    using poll_deliver_results_queue [OF d [symmetric]] by simp
  have len: "length rest < length (results_queue s)"
    using Get_Done by (rule Queue_get_shorter)
  show ?thesis
  proof (cases r)
    case None
    with assms Get_Done d have "poll cb True t = (Returned, s')"
      by (auto simp: poll.simps [of cb True s] split: if_splits)
    from poll_results_queue_le [OF this] t len show ?thesis by simp
  next
    case (Some e)
    with assms Get_Done d t len show ?thesis
      by (auto simp: poll.simps [of cb True s] split: if_splits)
  qed
next
  case (Get_Raises e)
  then show ?thesis
    by (auto simp: Queue_get_def split: list.splits)
next
  case Get_Waits
  with assms show ?thesis
    by (auto simp: poll.simps [of cb True s] split: if_splits)
qed

text \<open>
  \<^verbatim>\<open>ThreadPool.wait\<close>: \<^verbatim>\<open>poll(True)\<close> again and again until it raises
  \<^verbatim>\<open>NoResultsPending\<close>; any other exception leaves \<^verbatim>\<open>wait\<close>.
\<close>

function wait :: "('f, 'v) callbacks \<Rightarrow> ('f, 'v) pool \<Rightarrow> outcome \<times> ('f, 'v) pool" where
  "wait cb s =
     (case poll cb True s of
        (Raised e, s') \<Rightarrow> (if e = NoResultsPending then (Returned, s') else (Raised e, s'))
      | (Blocked, s') \<Rightarrow> (Blocked, s')
      | (Returned, s') \<Rightarrow> wait cb s')"
  by pat_completeness auto
termination
  by (relation "measure (\<lambda>(cb, s). length (results_queue s))")
    (auto dest: poll_blocking_Returned_shorter [OF sym])

declare wait.simps [simp del]

section \<open>Workers\<close>

text \<open>
  How one pass through the body of \<^verbatim>\<open>Worker.run\<close>'s loop ends: with \<^verbatim>\<open>continue\<close>
  or at the end of the body (\<open>Continue\<close>), with \<^verbatim>\<open>break\<close> (\<open>Break\<close>), with an
  exception that leaves \<^verbatim>\<open>run\<close> and ends the thread (\<open>Dies\<close>), or suspended in a
  queue operation: in the \<^verbatim>\<open>get\<close>, in the \<^verbatim>\<open>put\<close> that gives a request back, or in
  the \<^verbatim>\<open>put\<close> of a pair on the results queue.
\<close>

datatype ('f, 'v) loop_ctl =
    Continue
  | Break
  | Dies py_error
  | Waits_in_get
  | Waits_to_requeue "('f, 'v) work_request"
  | Waits_to_put "('f, 'v) work_request \<times> 'v payload"

text \<open>
  Calling \<^verbatim>\<open>request.callable(*request.args, **request.kwds)\<close> is the parameter
  \<open>invoke\<close>: \<open>Inr v\<close> when the call returns \<open>v\<close>, \<open>Inl e\<close> when it raises \<open>e\<close>.
\<close>

type_synonym ('f, 'v) invoke = "'f \<Rightarrow> 'v list \<Rightarrow> (string \<times> 'v) list \<Rightarrow> py_error + 'v"

text \<open>
  The inner \<^verbatim>\<open>try\<close> block of \<^verbatim>\<open>Worker.run\<close>: call the callable and put the pair of
  request and result on the results queue (a blocking \<^verbatim>\<open>put\<close> without timeout).
  \<open>Inl e\<close>: the exception \<open>e\<close> was raised inside the block.
\<close>

definition Worker_try ::
  "('f, 'v) invoke \<Rightarrow> ('f, 'v) work_request \<Rightarrow> ('f, 'v) pool \<Rightarrow>
     py_error + (('f, 'v) loop_ctl \<times> ('f, 'v) pool)" where
  "Worker_try invoke request s =
     (case invoke (callable request) (args request) (kwds request) of
        Inl e \<Rightarrow> Inl e
      | Inr result \<Rightarrow>
          (case Queue_put (resq_size s) (results_queue s) (request, Value result) True None of
             Put_Done q' \<Rightarrow> Inr (Continue, s\<lparr> results_queue := q' \<rparr>)
           | Put_Waits \<Rightarrow> Inr (Waits_to_put (request, Value result), s)
           | Put_Raises e \<Rightarrow> Inl e))"

text \<open>
  The bare \<^verbatim>\<open>except:\<close> handler: set \<^verbatim>\<open>request.exception\<close> and put the pair of
  request and \<^verbatim>\<open>sys.exc_info()\<close> on the results queue. The request travels by value
  here; the entry that \<^verbatim>\<open>put_request\<close> stored in \<^verbatim>\<open>workRequests\<close> is never read
  for its fields, only deleted by key.
\<close>

definition Worker_except ::
  "py_error \<Rightarrow> ('f, 'v) work_request \<Rightarrow> ('f, 'v) pool \<Rightarrow>
     ('f, 'v) loop_ctl \<times> ('f, 'v) pool" where
  "Worker_except e request s =
     (case Queue_put (resq_size s) (results_queue s)
             (request\<lparr> exception := True \<rparr>, Exc_Info e) True None of
        Put_Done q' \<Rightarrow> (Continue, s\<lparr> results_queue := q' \<rparr>)
      | Put_Waits \<Rightarrow> (Waits_to_put (request\<lparr> exception := True \<rparr>, Exc_Info e), s)
      | Put_Raises e' \<Rightarrow> (Dies e', s))"

text \<open>
  What the pool's thread does to the pool while a worker is between two of its own
  statements: the \<^verbatim>\<open>put_request\<close> calls that it completes, in order. A call that
  does not enqueue its request leaves the pool as it is.
\<close>

definition pool_puts :: "('f, 'v) work_request list \<Rightarrow> ('f, 'v) pool \<Rightarrow> ('f, 'v) pool" where
  "pool_puts arrived s = fold (\<lambda>r s'. snd (put_request r False None s')) arrived s"

text \<open>
  One pass through the loop body of \<^verbatim>\<open>Worker.run\<close>. The dismissal flag is written by
  the pool's thread, so the two reads of \<^verbatim>\<open>self._dismissed.isSet()\<close> are inputs:
  \<open>dismissed\<close> at the top of the loop, \<open>dismissed'\<close> after a request has been
  received. The same thread also puts requests on the requests queue: \<open>arrived\<close> are
  the requests that it has submitted between the worker's \<^verbatim>\<open>get\<close> and the worker's
  \<^verbatim>\<open>put\<close> of the request it gives back, the one place where a pass touches the
  requests queue a second time; that \<^verbatim>\<open>put\<close> acts on the queue as it then stands.
  Entering the inner \<^verbatim>\<open>try\<close> block calls the callable, which is logged in
  \<open>invoked\<close>.
\<close>

definition Worker_run_body ::
  "('f, 'v) invoke \<Rightarrow> int option \<Rightarrow> bool \<Rightarrow> bool \<Rightarrow> ('f, 'v) work_request list \<Rightarrow>
     ('f, 'v) pool \<Rightarrow> ('f, 'v) loop_ctl \<times> ('f, 'v) pool" where
  "Worker_run_body invoke poll_timeout dismissed dismissed' arrived s =
     (if dismissed then (Break, s)
      else (case Queue_get (requests_queue s) True poll_timeout of
          Get_Raises e \<Rightarrow> (if e = Queue_Empty then (Continue, s) else (Dies e, s))
        | Get_Waits \<Rightarrow> (Waits_in_get, s)
        | Get_Done request rest \<Rightarrow>
            (if dismissed' then
               (let s1 = pool_puts arrived (s\<lparr> requests_queue := rest \<rparr>)
                in case Queue_put (q_size s1) (requests_queue s1) request True None of
                     Put_Done q' \<Rightarrow> (Break, s1\<lparr> requests_queue := q' \<rparr>)
                   | Put_Waits \<Rightarrow> (Waits_to_requeue request, s1)
                   | Put_Raises e \<Rightarrow> (Dies e, s1))
             else
               (let s1 = s\<lparr> requests_queue := rest,
                            invoked := invoked s @
                              [(callable request, args request, kwds request)] \<rparr>
                in case Worker_try invoke request s1 of
                     Inr r \<Rightarrow> r
                   | Inl e \<Rightarrow> Worker_except e request s1))))"

text \<open>
  \<^verbatim>\<open>Worker.run\<close>: the loop, driven by the list of what its passes get from the pool's
  thread: the two flag readings and the requests that arrived. When the list is used up
  the loop is still running (\<open>Continue\<close>).
\<close>

fun Worker_run ::
  "('f, 'v) invoke \<Rightarrow> int option \<Rightarrow> (bool \<times> bool \<times> ('f, 'v) work_request list) list \<Rightarrow>
     ('f, 'v) pool \<Rightarrow> ('f, 'v) loop_ctl \<times> ('f, 'v) pool" where
  "Worker_run invoke poll_timeout [] s = (Continue, s)"
| "Worker_run invoke poll_timeout (d # ds) s =
     (case Worker_run_body invoke poll_timeout (fst d) (fst (snd d)) (snd (snd d)) s of
        (Continue, s') \<Rightarrow> Worker_run invoke poll_timeout ds s'
      | (ctl, s') \<Rightarrow> (ctl, s'))"

section \<open>The sequential executor\<close>

text \<open>
  A task, by its three getters, and a \<^verbatim>\<open>Result\<close>, by the two constructor arguments
  \<^verbatim>\<open>Result(task.get_id(), solver.get_solution())\<close>.
\<close>

record 'p task =
  get_id :: int
  get_model_parameters :: 'p
  get_solver_id :: int

datatype 's result = Result int 's

text \<open>
  What a method of a backend solver raises: an instance of \<^verbatim>\<open>Exception\<close>, which
  \<^verbatim>\<open>except Exception\<close> catches, or something outside that class
  (\<^verbatim>\<open>KeyboardInterrupt\<close>, \<^verbatim>\<open>SystemExit\<close>), which it does not.
\<close>

datatype raised = Exception_instance string | Not_Exception string

text \<open>
  A backend solver is opaque; it is given by what its three methods do for the model
  parameters loaded into it: \<open>None\<close> when \<^verbatim>\<open>load_model_params\<close> or \<^verbatim>\<open>solve\<close>
  returns, \<open>Some r\<close> when it raises \<open>r\<close>.
\<close>

record ('p, 's) solver =
  load_model_params :: "'p \<Rightarrow> raised option"
  solve :: "'p \<Rightarrow> raised option"
  get_solution :: "'p \<Rightarrow> raised + 's"

text \<open>
  What leaves \<^verbatim>\<open>execute\<close> as an exception: the executor's own \<^verbatim>\<open>Error\<close>
  (\<^verbatim>\<open>'Cannot instantiate backend solver by id: %d'\<close>, with the solver id), or an
  exception of the solver that is not caught.
\<close>

datatype exec_error = Error int | Uncaught raised

text \<open>
  \<^verbatim>\<open>DummyExecutor.execute\<close>. The registry function
  \<^verbatim>\<open>backend_solvers.get_instance_of\<close> is a parameter: \<open>None\<close> when it returns a
  false value for the solver id, \<open>Some solver\<close> when it returns a solver. \<open>Inr None\<close>
  is the return value \<^verbatim>\<open>None\<close>.
\<close>

definition execute ::
  "(int \<Rightarrow> ('p, 's) solver option) \<Rightarrow> 'p task \<Rightarrow> exec_error + 's result option" where
  "execute get_instance_of task =
     (case get_instance_of (get_solver_id task) of
        None \<Rightarrow> Inl (Error (get_solver_id task))
      | Some solver \<Rightarrow>
          (case (case load_model_params solver (get_model_parameters task) of
                   Some r \<Rightarrow> Some r
                 | None \<Rightarrow> solve solver (get_model_parameters task)) of
             Some (Exception_instance m) \<Rightarrow> Inr None
           | Some (Not_Exception m) \<Rightarrow> Inl (Uncaught (Not_Exception m))
           | None \<Rightarrow>
               (case get_solution solver (get_model_parameters task) of
                  Inl r \<Rightarrow> Inl (Uncaught r)
                | Inr sol \<Rightarrow> Inr (Some (Result (get_id task) sol)))))"

text \<open>The calls that \<^verbatim>\<open>run\<close> makes on the pipeline, in order.\<close>

datatype ('p, 's) pipeline_call = Finalize_task "'p task" | Process_result "'s result"

text \<open>
  \<^verbatim>\<open>DummyExecutor.run\<close>: the \<^verbatim>\<open>for\<close> loop over the tasks that the pipeline yields.
  The first component is the exception that leaves \<^verbatim>\<open>run\<close>, if any; the second the
  log of calls on the pipeline, extended.
\<close>

fun run ::
  "(int \<Rightarrow> ('p, 's) solver option) \<Rightarrow> 'p task list \<Rightarrow> ('p, 's) pipeline_call list \<Rightarrow>
     exec_error option \<times> ('p, 's) pipeline_call list" where
  "run get_instance_of [] log = (None, log)"
| "run get_instance_of (task # tasks) log =
     (case execute get_instance_of task of
        Inl e \<Rightarrow> (Some e, log)
      | Inr None \<Rightarrow> run get_instance_of tasks (log @ [Finalize_task task])
      | Inr (Some result) \<Rightarrow> run get_instance_of tasks (log @ [Process_result result]))"

section \<open>Observations on the pipeline's log\<close>

text \<open>
  How often \<^verbatim>\<open>finalize_task(task)\<close> is in a log, and the results that
  \<^verbatim>\<open>process_result\<close> was called with for a task identifier.
\<close>

definition finalize_calls :: "'p task \<Rightarrow> ('p, 's) pipeline_call list \<Rightarrow> nat" where
  "finalize_calls task log = length (filter (\<lambda>c. c = Finalize_task task) log)"

definition process_calls :: "int \<Rightarrow> ('p, 's) pipeline_call list \<Rightarrow> 's result list" where
  "process_calls task_id log =
     concat (map (\<lambda>c. case c of
                         Process_result (Result i sol) \<Rightarrow> if i = task_id then [Result i sol] else []
                       | Finalize_task _ \<Rightarrow> []) log)"

section \<open>Example inputs\<close>

text \<open>
  Function objects are named by strings and values are integers. No callback raises;
  the callable \<^verbatim>\<open>fail\<close> raises, any other returns the sum of its arguments.
\<close>

definition callbacks_return :: "(string, int) callbacks" where
  "callbacks_return f request result = None"

definition example_invoke :: "(string, int) invoke" where
  "example_invoke f a kw = (if f = ''fail'' then Inl (Other_Error ''boom'') else Inr (sum_list a))"

text \<open>
  The request that \<^verbatim>\<open>WorkRequest(f, [i], request_id=i, callback=on_result)\<close> makes
  for a small non-negative \<open>i\<close>, and the same request after client code has set
  \<^verbatim>\<open>request.requestID = request.request_id\<close> on it.
\<close>

definition new_request :: "int \<Rightarrow> string \<Rightarrow> (string, int) work_request" where
  "new_request i f =
     \<lparr> request_id = i, exception = False, callback = Some ''on_result'',
       exc_callback = Some ''_handle_thread_exception'', callable = f, args = [i], kwds = [],
       requestID = None \<rparr>"

definition tagged :: "(string, int) work_request \<Rightarrow> (string, int) work_request" where
  "tagged r = r\<lparr> requestID := Some (request_id r) \<rparr>"

text \<open>
  A pool of \<open>n\<close> workers and queues of size \<open>cap\<close> after \<^verbatim>\<open>put_request\<close> of each of
  the requests, and a pool after a worker has made \<open>n\<close> passes through its loop without
  being dismissed.
\<close>

definition submitted ::
  "nat \<Rightarrow> int \<Rightarrow> (string, int) work_request list \<Rightarrow> (string, int) pool" where
  "submitted n cap rs = fold (\<lambda>r s. snd (put_request r True None s)) rs (ThreadPool_init n cap cap)"

definition served :: "nat \<Rightarrow> (string, int) pool \<Rightarrow> (string, int) pool" where
  "served n s = snd (Worker_run example_invoke (Some 5) (replicate n (False, False, [])) s)"

text \<open>Callbacks that all raise \<^verbatim>\<open>queue.Empty\<close>.\<close>

definition callbacks_raise_Empty :: "(string, int) callbacks" where
  "callbacks_raise_Empty f request result = Some Queue_Empty"

text \<open>
  Three pools of two workers with unbounded queues. \<open>one_done\<close>: one request, as the
  constructor makes it, was submitted and a worker has served it. \<open>two_done\<close>: three
  requests were submitted, the first two with the attribute \<^verbatim>\<open>requestID\<close> set by
  the client, and a worker has served the first two. \<open>backlog\<close>: both queues hold one
  element at most; one request was submitted and served, so the results queue is full,
  and a second request, whose callable raises, was submitted after that.
\<close>

definition one_done :: "(string, int) pool" where
  "one_done = served 1 (submitted 2 0 [new_request 1 ''work''])"

definition two_done :: "(string, int) pool" where
  "two_done =
     served 2 (submitted 2 0
       [tagged (new_request 1 ''work''), tagged (new_request 2 ''fail''), new_request 3 ''work''])"

definition backlog :: "(string, int) pool" where
  "backlog = snd (put_request (new_request 2 ''fail'') True None
               (served 1 (submitted 2 1 [new_request 1 ''work''])))"

text \<open>
  Keys for \<^verbatim>\<open>request_id\<close>: integers, hashed as CPython does on a 64-bit machine, and
  lists, which are unhashable.
\<close>

datatype py_key = Int_key int | List_key "int list"

definition key_hash :: "py_key \<Rightarrow> int option" where
  "key_hash k =
     (case k of
        Int_key n \<Rightarrow>
          (let h = sgn n * (\<bar>n\<bar> mod (2 ^ 61 - 1)) in Some (if h = - 1 then - 2 else h))
      | List_key _ \<Rightarrow> None)"

text \<open>
  A registry with one backend, under the id 1: it fails to solve empty model parameters
  and otherwise returns the sum of the parameters as the solution.
\<close>

definition example_solver :: "(int list, int) solver" where
  "example_solver =
     \<lparr> load_model_params = (\<lambda>p. None),
       solve = (\<lambda>p. if p = [] then Some (Exception_instance ''infeasible'') else None),
       get_solution = (\<lambda>p. Inr (sum_list p)) \<rparr>"

definition example_registry :: "int \<Rightarrow> (int list, int) solver option" where
  "example_registry i = (if i = 1 then Some example_solver else None)"

definition new_task :: "int \<Rightarrow> int list \<Rightarrow> int \<Rightarrow> int list task" where
  "new_task i p k = \<lparr> get_id = i, get_model_parameters = p, get_solver_id = k \<rparr>"

lemmas example_defs =
  callbacks_return_def example_invoke_def new_request_def tagged_def submitted_def served_def
  ThreadPool_init_def put_request_def Queue_put_def Queue_get_def Queue_full_def
  Worker_run_body_def Worker_try_def Worker_except_def poll_deliver_def invoke_callback_def

lemmas executor_example_defs =
  example_registry_def example_solver_def new_task_def execute_def

section \<open>Facts about the examples\<close>

lemma one_done_fields:
  "one_done =
     \<lparr> q_size = 0, resq_size = 0, requests_queue = [],
       results_queue = [(new_request 1 ''work'', Value 1)],
       workers = [0..<2], dismissedWorkers = [],
       workRequests = [(1, new_request 1 ''work'')],
       calls = [], invoked = [(''work'', [1], [])] \<rparr>"
  by (simp add: one_done_def example_defs)

lemma two_done_fields:
  "two_done =
     \<lparr> q_size = 0, resq_size = 0, requests_queue = [new_request 3 ''work''],
       results_queue =
         [(tagged (new_request 1 ''work''), Value 1),
          ((tagged (new_request 2 ''fail''))\<lparr> exception := True \<rparr>, Exc_Info (Other_Error ''boom''))],
       workers = [0..<2], dismissedWorkers = [],
       workRequests =
         [(1, tagged (new_request 1 ''work'')), (2, tagged (new_request 2 ''fail'')),
          (3, new_request 3 ''work'')],
       calls = [], invoked = [(''work'', [1], []), (''fail'', [2], [])] \<rparr>"
  by (simp add: two_done_def example_defs numeral_2_eq_2)

lemma backlog_fields:
  "requests_queue backlog = [new_request 2 ''fail'']"
  "results_queue backlog = [(new_request 1 ''work'', Value 1)]"
  "resq_size backlog = 1"
  "invoked backlog = [(''work'', [1], [])]"
  by (simp_all add: backlog_def example_defs)

section \<open>Creating requests\<close>

text \<open>
  Claim C9. For a supplied \<^verbatim>\<open>request_id\<close> the constructor stores its hash as the
  request's identifier and raises \<^verbatim>\<open>TypeError\<close> when it is unhashable; without one
  it stores \<^verbatim>\<open>id(self)\<close>; the exception flag of a new request is false. Two requests
  made from identifiers with the same hash have the same identifier, and when both are
  submitted to a pool with an unbounded requests queue, the dictionary ends with the
  second request alone under that identifier: the entry of the first is overwritten.
\<close>

theorem WorkRequest_init_identifier:
  "(hash k = Some h \<longrightarrow>
      (\<exists>r. WorkRequest_init hash self_id f a kw (Some k) c ec = Inr r \<and>
           request_id r = h \<and> \<not> exception r))
   \<and> (hash k = None \<longrightarrow> WorkRequest_init hash self_id f a kw (Some k) c ec = Inl TypeError)
   \<and> (\<exists>r. WorkRequest_init hash self_id f a kw None c ec = Inr r \<and>
           request_id r = self_id \<and> \<not> exception r)
   \<and> (hash k1 = Some h \<and> hash k2 = Some h \<and> q_size s \<le> 0 \<longrightarrow>
       (\<exists>r1 r2.
           WorkRequest_init hash self_id1 f a kw (Some k1) c ec = Inr r1 \<and>
           WorkRequest_init hash self_id2 f' a' kw' (Some k2) c' ec' = Inr r2 \<and>
           request_id r1 = h \<and> request_id r2 = h \<and>
           fst (put_request r1 block timeout s) = Returned \<and>
           fst (put_request r2 block timeout (snd (put_request r1 block timeout s))) = Returned \<and>
           workRequests (snd (put_request r2 block timeout (snd (put_request r1 block timeout s)))) =
             AList.update h r2 (workRequests s)))"
  by (auto simp: WorkRequest_init_def put_request_def Queue_put_def split: option.splits)

theorem WorkRequest_init_identifier_witness:
  "key_hash (Int_key (- 1)) = Some (- 2)
   \<and> WorkRequest_init key_hash 140 ''work'' (Some [1]) None (Some (Int_key (- 1)))
        (Some ''on_result'') None =
       Inr \<lparr> request_id = - 2, exception = False, callback = Some ''on_result'',
             exc_callback = None, callable = ''work'', args = [1 :: int], kwds = [],
             requestID = None \<rparr>
   \<and> key_hash (List_key [7]) = None
   \<and> WorkRequest_init key_hash 140 ''work'' (Some [1 :: int]) None (Some (List_key [7]))
        (Some ''on_result'') None = Inl TypeError
   \<and> Int_key (- 1) \<noteq> Int_key (- 2)
   \<and> key_hash (Int_key (- 2)) = Some (- 2)
   \<and> map fst (workRequests
        (snd (put_request (new_request (- 2) ''second'') True None
          (snd (put_request (new_request (- 2) ''first'') True None (submitted 2 0 [])))))) = [- 2]"
proof -
  have hl: "key_hash (List_key [7]) = None"
    and h1: "key_hash (Int_key (- 1)) = Some (- 2)"
    and h2: "key_hash (Int_key (- 2)) = Some (- 2)"
    by (simp_all add: key_hash_def)
  have unbounded: "q_size (submitted 2 0 []) \<le> 0"
    by (simp add: example_defs)
  have empty: "workRequests (submitted 2 0 []) = []"
    by (simp add: example_defs)
  have made: "\<exists>r. WorkRequest_init key_hash 140 ''work'' (Some [1 :: int]) None
        (Some (Int_key (- 1))) (Some ''on_result'') None = Inr r \<and>
        request_id r = - 2 \<and> \<not> exception r"
    using h1
      WorkRequest_init_identifier [of key_hash "Int_key (- 1)" "- 2" 140 "''work''" "Some [1]"
        None "Some ''on_result''" None]
    by blast
  then have c1: "WorkRequest_init key_hash 140 ''work'' (Some [1]) None (Some (Int_key (- 1)))
        (Some ''on_result'') None =
       Inr \<lparr> request_id = - 2, exception = False, callback = Some ''on_result'',
             exc_callback = None, callable = ''work'', args = [1 :: int], kwds = [],
             requestID = None \<rparr>"
    by (auto simp: WorkRequest_init_def h1)
  have c2: "WorkRequest_init key_hash 140 ''work'' (Some [1 :: int]) None (Some (List_key [7]))
        (Some ''on_result'') None = Inl TypeError"
    using hl
      WorkRequest_init_identifier [of key_hash "List_key [7]" 0 140 "''work''" "Some [1]" None
        "Some ''on_result''" None]
    by blast
  have "\<exists>r1 r2.
      WorkRequest_init key_hash (- 2) ''first'' (Some [- 2 :: int]) None (Some (Int_key (- 1)))
        (Some ''on_result'') (Some ''_handle_thread_exception'') = Inr r1 \<and>
      WorkRequest_init key_hash (- 2) ''second'' (Some [- 2]) None (Some (Int_key (- 2)))
        (Some ''on_result'') (Some ''_handle_thread_exception'') = Inr r2 \<and>
      request_id r1 = - 2 \<and> request_id r2 = - 2 \<and>
      fst (put_request r1 True None (submitted 2 0 [])) = Returned \<and>
      fst (put_request r2 True None (snd (put_request r1 True None (submitted 2 0 [])))) = Returned \<and>
      workRequests (snd (put_request r2 True None (snd (put_request r1 True None (submitted 2 0 []))))) =
        AList.update (- 2) r2 (workRequests (submitted 2 0 []))"
    using h1 h2 unbounded
      WorkRequest_init_identifier [where hash = key_hash and ?k1.0 = "Int_key (- 1)"
        and ?k2.0 = "Int_key (- 2)" and h = "- 2" and s = "submitted 2 0 []"
        and ?self_id1.0 = "- 2" and ?self_id2.0 = "- 2"
        and f = "''first''" and f' = "''second''" and a = "Some [- 2]" and a' = "Some [- 2]"
        and kw = None and kw' = None and c = "Some ''on_result''" and c' = "Some ''on_result''"
        and ec = "Some ''_handle_thread_exception''" and ec' = "Some ''_handle_thread_exception''"
        and block = True and timeout = None]
    by blast
  then have c3: "map fst (workRequests
        (snd (put_request (new_request (- 2) ''second'') True None
          (snd (put_request (new_request (- 2) ''first'') True None (submitted 2 0 [])))))) = [- 2]"
    by (auto simp: WorkRequest_init_def h1 h2 new_request_def empty)
  from hl h1 h2 c1 c2 c3 show ?thesis
    by simp
qed

section \<open>Submitting requests\<close>

text \<open>
  Claim C6. \<^verbatim>\<open>put_request\<close> raises \<^verbatim>\<open>AssertionError\<close> for a request whose exception
  flag is set, and the pool is unchanged, so the request is not enqueued. For a request
  that is not flagged it follows the queue: on a full bounded queue it raises
  \<^verbatim>\<open>queue.Full\<close> when called non-blocking or after a non-negative timeout, and waits
  when called blocking without timeout; a negative timeout on a bounded queue raises
  \<^verbatim>\<open>ValueError\<close>; in all these cases the pool is unchanged. Otherwise the request is
  appended to the requests queue and stored in \<^verbatim>\<open>workRequests\<close> under its
  \<^verbatim>\<open>request_id\<close>. Whenever \<^verbatim>\<open>put_request\<close> returns, the request was not flagged, is
  the last element of the queue and is the dictionary's entry for its identifier.
\<close>

theorem put_request_contract:
  "(exception request \<longrightarrow> put_request request block timeout s = (Raised AssertionError, s))
   \<and> (\<not> exception request \<and> \<not> block \<and> Queue_full (q_size s) (requests_queue s) \<longrightarrow>
        put_request request block timeout s = (Raised Queue_Full, s))
   \<and> (\<not> exception request \<and> block \<and> 0 < q_size s \<and> (\<exists>t. timeout = Some t \<and> t < 0) \<longrightarrow>
        put_request request block timeout s = (Raised ValueError, s))
   \<and> (\<not> exception request \<and> block \<and> Queue_full (q_size s) (requests_queue s) \<and>
        (\<exists>t. timeout = Some t \<and> 0 \<le> t) \<longrightarrow>
        put_request request block timeout s = (Raised Queue_Full, s))
   \<and> (\<not> exception request \<and> block \<and> Queue_full (q_size s) (requests_queue s) \<and>
        timeout = None \<longrightarrow>
        put_request request block timeout s = (Blocked, s))
   \<and> (\<not> exception request \<and> \<not> Queue_full (q_size s) (requests_queue s) \<and>
        \<not> (block \<and> 0 < q_size s \<and> (\<exists>t. timeout = Some t \<and> t < 0)) \<longrightarrow>
        put_request request block timeout s =
          (Returned,
           s\<lparr> requests_queue := requests_queue s @ [request],
              workRequests := AList.update (request_id request) request (workRequests s) \<rparr>))
   \<and> (put_request request block timeout s = (Returned, s') \<longrightarrow>
        \<not> exception request \<and> requests_queue s' = requests_queue s @ [request] \<and>
        map_of (workRequests s') (request_id request) = Some request)"
  by (auto simp: put_request_def Queue_put_def Queue_full_def update_conv'
      split: option.splits if_splits)

theorem put_request_contract_witness:
  "put_request ((new_request 1 ''work'')\<lparr> exception := True \<rparr>) True None (submitted 2 0 []) =
     (Raised AssertionError, submitted 2 0 [])
   \<and> put_request (new_request 2 ''work'') False None (submitted 2 1 [new_request 1 ''work'']) =
     (Raised Queue_Full, submitted 2 1 [new_request 1 ''work''])
   \<and> put_request (new_request 2 ''work'') True (Some (- 1)) (submitted 2 1 []) =
     (Raised ValueError, submitted 2 1 [])
   \<and> put_request (new_request 2 ''work'') True (Some 3) (submitted 2 1 [new_request 1 ''work'']) =
     (Raised Queue_Full, submitted 2 1 [new_request 1 ''work''])
   \<and> put_request (new_request 2 ''work'') True None (submitted 2 1 [new_request 1 ''work'']) =
     (Blocked, submitted 2 1 [new_request 1 ''work''])
   \<and> put_request (new_request 2 ''work'') False None (submitted 2 2 [new_request 1 ''work'']) =
     (Returned,
      (submitted 2 2 [new_request 1 ''work''])
        \<lparr> requests_queue := [new_request 1 ''work'', new_request 2 ''work''],
           workRequests := [(1, new_request 1 ''work''), (2, new_request 2 ''work'')] \<rparr>)
   \<and> map_of (workRequests (submitted 2 2 [new_request 1 ''work''])) 1 =
     Some (new_request 1 ''work'')"
proof -
  have flagged: "exception ((new_request 1 ''work'')\<lparr> exception := True \<rparr>)"
    by simp
  have fresh: "\<not> exception (new_request 2 ''work'')" "\<not> exception (new_request 1 ''work'')"
    by (simp_all add: new_request_def)
  have full: "Queue_full (q_size (submitted 2 1 [new_request 1 ''work'']))
                (requests_queue (submitted 2 1 [new_request 1 ''work'']))"
    by (simp add: example_defs)
  have bounded: "0 < q_size (submitted 2 1 [])"
    by (simp add: example_defs)
  have room: "\<not> Queue_full (q_size (submitted 2 2 [new_request 1 ''work'']))
                (requests_queue (submitted 2 2 [new_request 1 ''work'']))"
    by (simp add: example_defs)
  have first: "put_request (new_request 1 ''work'') True None (submitted 2 2 []) =
      (Returned, submitted 2 2 [new_request 1 ''work''])"
    by (simp add: example_defs)
  have q: "requests_queue (submitted 2 2 [new_request 1 ''work'']) = [new_request 1 ''work'']"
    and w: "workRequests (submitted 2 2 [new_request 1 ''work'']) = [(1, new_request 1 ''work'')]"
    by (simp_all add: example_defs)
  have ids: "request_id (new_request 2 ''work'') = 2"
    by (simp add: new_request_def)
  have neg: "\<exists>t. Some (- 1 :: int) = Some t \<and> t < 0"
    and pos: "\<exists>t. Some (3 :: int) = Some t \<and> 0 \<le> t"
    by simp_all
  have c1: "put_request ((new_request 1 ''work'')\<lparr> exception := True \<rparr>) True None
      (submitted 2 0 []) = (Raised AssertionError, submitted 2 0 [])"
    using flagged
      put_request_contract [of "(new_request 1 ''work'')\<lparr> exception := True \<rparr>" True None
        "submitted 2 0 []"]
    by blast
  have c2: "put_request (new_request 2 ''work'') False None
      (submitted 2 1 [new_request 1 ''work'']) =
        (Raised Queue_Full, submitted 2 1 [new_request 1 ''work''])"
    using fresh full
      put_request_contract [of "new_request 2 ''work''" False None
        "submitted 2 1 [new_request 1 ''work'']"]
    by blast
  have c3: "put_request (new_request 2 ''work'') True (Some (- 1)) (submitted 2 1 []) =
      (Raised ValueError, submitted 2 1 [])"
    using fresh bounded neg
      put_request_contract [of "new_request 2 ''work''" True "Some (- 1)" "submitted 2 1 []"]
    by blast
  have c4: "put_request (new_request 2 ''work'') True (Some 3)
      (submitted 2 1 [new_request 1 ''work'']) =
        (Raised Queue_Full, submitted 2 1 [new_request 1 ''work''])"
    using fresh full pos
      put_request_contract [of "new_request 2 ''work''" True "Some 3"
        "submitted 2 1 [new_request 1 ''work'']"]
    by blast
  have c5: "put_request (new_request 2 ''work'') True None
      (submitted 2 1 [new_request 1 ''work'']) =
        (Blocked, submitted 2 1 [new_request 1 ''work''])"
    using fresh full
      put_request_contract [of "new_request 2 ''work''" True None
        "submitted 2 1 [new_request 1 ''work'']"]
    by blast
  have "put_request (new_request 2 ''work'') False None
      (submitted 2 2 [new_request 1 ''work'']) =
        (Returned,
         (submitted 2 2 [new_request 1 ''work''])
           \<lparr> requests_queue :=
                requests_queue (submitted 2 2 [new_request 1 ''work'']) @
                  [new_request 2 ''work''],
              workRequests :=
                AList.update (request_id (new_request 2 ''work'')) (new_request 2 ''work'')
                  (workRequests (submitted 2 2 [new_request 1 ''work''])) \<rparr>)"
    using fresh room
      put_request_contract [of "new_request 2 ''work''" False None
        "submitted 2 2 [new_request 1 ''work'']"]
    by blast
  then have c6: "put_request (new_request 2 ''work'') False None
      (submitted 2 2 [new_request 1 ''work'']) =
        (Returned,
         (submitted 2 2 [new_request 1 ''work''])
           \<lparr> requests_queue := [new_request 1 ''work'', new_request 2 ''work''],
              workRequests := [(1, new_request 1 ''work''), (2, new_request 2 ''work'')] \<rparr>)"
    by (simp add: q w ids)
  have "map_of (workRequests (submitted 2 2 [new_request 1 ''work'']))
          (request_id (new_request 1 ''work'')) = Some (new_request 1 ''work'')"
    using first
      put_request_contract [of "new_request 1 ''work''" True None "submitted 2 2 []"
        "submitted 2 2 [new_request 1 ''work'']"]
    by blast
  then have c7: "map_of (workRequests (submitted 2 2 [new_request 1 ''work''])) 1 =
      Some (new_request 1 ''work'')"
    by (simp add: new_request_def)
  from c1 c2 c3 c4 c5 c6 c7 show ?thesis
    by blast
qed

section \<open>Polling\<close>

text \<open>
  Claim C7. A drain attempt of \<^verbatim>\<open>poll\<close> that starts with an empty \<^verbatim>\<open>workRequests\<close>
  raises \<^verbatim>\<open>NoResultsPending\<close>, whatever \<^verbatim>\<open>block\<close> is, so in particular for
  \<^verbatim>\<open>poll(block=False)\<close>; with \<^verbatim>\<open>block\<close> true, a non-empty \<^verbatim>\<open>workRequests\<close> and
  no active worker it raises \<^verbatim>\<open>NoWorkersAvailable\<close> and does not wait. The pool is
  unchanged in both cases.
\<close>

theorem poll_raises:
  "(workRequests s = [] \<longrightarrow> poll cb block s = (Raised NoResultsPending, s))
   \<and> (block \<and> workRequests s \<noteq> [] \<and> workers s = [] \<longrightarrow>
        poll cb block s = (Raised NoWorkersAvailable, s))
   \<and> (workRequests s = [] \<longrightarrow> poll cb False s = (Raised NoResultsPending, s))"
  by (auto simp: poll.simps [of cb block s] poll.simps [of cb False s] poll.simps [of cb True s])

theorem poll_raises_witness:
  "workRequests (submitted 2 0 []) = []
   \<and> poll callbacks_return True (submitted 2 0 []) = (Raised NoResultsPending, submitted 2 0 [])
   \<and> poll callbacks_return False (submitted 2 0 []) = (Raised NoResultsPending, submitted 2 0 [])
   \<and> workRequests (submitted 0 0 [new_request 1 ''work'']) \<noteq> []
   \<and> workers (submitted 0 0 [new_request 1 ''work'']) = []
   \<and> poll callbacks_return True (submitted 0 0 [new_request 1 ''work'']) =
       (Raised NoWorkersAvailable, submitted 0 0 [new_request 1 ''work''])"
proof -
  have none: "workRequests (submitted 2 0 []) = []"
    by (simp add: example_defs)
  have some: "workRequests (submitted 0 0 [new_request 1 ''work'']) \<noteq> []"
    and idle: "workers (submitted 0 0 [new_request 1 ''work'']) = []"
    by (simp_all add: example_defs)
  show ?thesis
    using none some idle
      poll_raises [of "submitted 2 0 []" callbacks_return True]
      poll_raises [of "submitted 0 0 [new_request 1 ''work'']" callbacks_return True]
    by simp
qed

text \<open>
  Claim C10. With a non-empty \<^verbatim>\<open>workRequests\<close> and an empty results queue,
  \<^verbatim>\<open>poll(block=False)\<close> returns and the pool is the same as before: no callback has
  been called and the dictionary, both worker lists and both queues are unchanged.
\<close>

theorem poll_nothing_to_drain:
  "workRequests s \<noteq> [] \<Longrightarrow> results_queue s = [] \<Longrightarrow> poll cb False s = (Returned, s)"
  by (simp add: poll.simps [of cb False s] Queue_get_def)

theorem poll_nothing_to_drain_witness:
  "workRequests (submitted 2 0 [new_request 1 ''work'']) \<noteq> []
   \<and> results_queue (submitted 2 0 [new_request 1 ''work'']) = []
   \<and> poll callbacks_return False (submitted 2 0 [new_request 1 ''work'']) =
       (Returned, submitted 2 0 [new_request 1 ''work''])"
proof -
  have pending: "workRequests (submitted 2 0 [new_request 1 ''work'']) \<noteq> []"
    and empty: "results_queue (submitted 2 0 [new_request 1 ''work'']) = []"
    by (simp_all add: example_defs)
  show ?thesis
    using pending empty poll_nothing_to_drain [OF pending empty, of callbacks_return]
    by simp
qed

section \<open>The worker's loop\<close>




text \<open>
  Claim C5. When the callable of the received request raises \<open>e\<close>, the worker sets the
  request's exception flag and puts the pair of the flagged request and the exception
  information on the results queue: at once when the queue has room, and otherwise it is
  suspended in that \<^verbatim>\<open>put\<close> with the pair. The pass neither leaves the loop nor ends
  the thread with an exception, and with room on the queue the loop goes on with its
  next pass.
\<close>

theorem Worker_relays_failure:
  assumes got: "Queue_get (requests_queue s) True poll_timeout = Get_Done request rest"
    and raises: "invoke (callable request) (args request) (kwds request) = Inl e"
  shows "(\<not> Queue_full (resq_size s) (results_queue s) \<longrightarrow>
            Worker_run_body invoke poll_timeout False False arrived s =
              (Continue,
               s\<lparr> requests_queue := rest,
                  invoked := invoked s @ [(callable request, args request, kwds request)],
                  results_queue :=
                    results_queue s @ [(request\<lparr> exception := True \<rparr>, Exc_Info e)] \<rparr>))
         \<and> (Queue_full (resq_size s) (results_queue s) \<longrightarrow>
            Worker_run_body invoke poll_timeout False False arrived s =
              (Waits_to_put (request\<lparr> exception := True \<rparr>, Exc_Info e),
               s\<lparr> requests_queue := rest,
                  invoked := invoked s @ [(callable request, args request, kwds request)] \<rparr>))
         \<and> fst (Worker_run_body invoke poll_timeout False False arrived s) \<noteq> Break
         \<and> (\<forall>e'. fst (Worker_run_body invoke poll_timeout False False arrived s) \<noteq> Dies e')
         \<and> (\<not> Queue_full (resq_size s) (results_queue s) \<longrightarrow>
            Worker_run invoke poll_timeout ((False, False, arrived) # ds) s =
            Worker_run invoke poll_timeout ds
              (s\<lparr> requests_queue := rest,
                  invoked := invoked s @ [(callable request, args request, kwds request)],
                  results_queue :=
                    results_queue s @ [(request\<lparr> exception := True \<rparr>, Exc_Info e)] \<rparr>))"
  using got raises
  by (auto simp: Worker_run_body_def Worker_try_def Worker_except_def Queue_put_def
      Queue_full_def Let_def)

theorem Worker_relays_failure_witness:
  "Queue_get (requests_queue (submitted 2 0 [new_request 1 ''fail''])) True (Some 5) =
     Get_Done (new_request 1 ''fail'') []
   \<and> example_invoke ''fail'' [1] [] = Inl (Other_Error ''boom'')
   \<and> \<not> Queue_full (resq_size (submitted 2 0 [new_request 1 ''fail'']))
          (results_queue (submitted 2 0 [new_request 1 ''fail'']))
   \<and> Worker_run_body example_invoke (Some 5) False False [] (submitted 2 0 [new_request 1 ''fail'']) =
       (Continue,
        (submitted 2 0 [new_request 1 ''fail''])
          \<lparr> requests_queue := [],
             invoked := [(''fail'', [1], [])],
             results_queue :=
               [((new_request 1 ''fail'')\<lparr> exception := True \<rparr>,
                 Exc_Info (Other_Error ''boom''))] \<rparr>)
   \<and> Queue_full (resq_size backlog) (results_queue backlog)
   \<and> Worker_run_body example_invoke (Some 5) False False [] backlog =
       (Waits_to_put
          ((new_request 2 ''fail'')\<lparr> exception := True \<rparr>, Exc_Info (Other_Error ''boom'')),
        backlog\<lparr> requests_queue := [],
                 invoked := [(''work'', [1], []), (''fail'', [2], [])] \<rparr>)"
proof -
  have q: "requests_queue (submitted 2 0 [new_request 1 ''fail'']) = [new_request 1 ''fail'']"
    and fresh: "invoked (submitted 2 0 [new_request 1 ''fail'']) = []"
      "results_queue (submitted 2 0 [new_request 1 ''fail'']) = []"
      "resq_size (submitted 2 0 [new_request 1 ''fail'']) = 0"
    by (simp_all add: example_defs)
  have got: "Queue_get (requests_queue (submitted 2 0 [new_request 1 ''fail''])) True (Some 5) =
     Get_Done (new_request 1 ''fail'') []"
    by (simp add: q Queue_get_def)
  have fields: "callable (new_request 1 ''fail'') = ''fail''" "args (new_request 1 ''fail'') = [1]"
      "kwds (new_request 1 ''fail'') = []"
      "callable (new_request 2 ''fail'') = ''fail''" "args (new_request 2 ''fail'') = [2]"
      "kwds (new_request 2 ''fail'') = []"
    by (simp_all add: new_request_def)
  have boom: "example_invoke ''fail'' [1] [] = Inl (Other_Error ''boom'')"
    by (simp add: example_invoke_def)
  then have raises: "example_invoke (callable (new_request 1 ''fail''))
      (args (new_request 1 ''fail'')) (kwds (new_request 1 ''fail'')) = Inl (Other_Error ''boom'')"
    by (simp add: fields)
  have room: "\<not> Queue_full (resq_size (submitted 2 0 [new_request 1 ''fail'']))
          (results_queue (submitted 2 0 [new_request 1 ''fail'']))"
    by (simp add: fresh Queue_full_def)
  have "Worker_run_body example_invoke (Some 5) False False [] (submitted 2 0 [new_request 1 ''fail'']) =
       (Continue,
        (submitted 2 0 [new_request 1 ''fail''])
          \<lparr> requests_queue := [],
             invoked := invoked (submitted 2 0 [new_request 1 ''fail'']) @
               [(callable (new_request 1 ''fail''), args (new_request 1 ''fail''),
                 kwds (new_request 1 ''fail''))],
             results_queue := results_queue (submitted 2 0 [new_request 1 ''fail'']) @
               [((new_request 1 ''fail'')\<lparr> exception := True \<rparr>,
                 Exc_Info (Other_Error ''boom''))] \<rparr>)"
    using room Worker_relays_failure [where invoke = example_invoke and arrived = "[]" and ds = "[]", OF got raises]
    by blast
  then have c1: "Worker_run_body example_invoke (Some 5) False False []
      (submitted 2 0 [new_request 1 ''fail'']) =
       (Continue,
        (submitted 2 0 [new_request 1 ''fail''])
          \<lparr> requests_queue := [],
             invoked := [(''fail'', [1], [])],
             results_queue :=
               [((new_request 1 ''fail'')\<lparr> exception := True \<rparr>,
                 Exc_Info (Other_Error ''boom''))] \<rparr>)"
    by (simp add: fields fresh)
  have got2: "Queue_get (requests_queue backlog) True (Some 5) =
      Get_Done (new_request 2 ''fail'') []"
    by (simp add: backlog_fields Queue_get_def)
  have raises2: "example_invoke (callable (new_request 2 ''fail''))
      (args (new_request 2 ''fail'')) (kwds (new_request 2 ''fail'')) = Inl (Other_Error ''boom'')"
    by (simp add: fields example_invoke_def)
  have full: "Queue_full (resq_size backlog) (results_queue backlog)"
    by (simp add: backlog_fields Queue_full_def)
  have "Worker_run_body example_invoke (Some 5) False False [] backlog =
       (Waits_to_put
          ((new_request 2 ''fail'')\<lparr> exception := True \<rparr>, Exc_Info (Other_Error ''boom'')),
        backlog\<lparr> requests_queue := [],
          invoked := invoked backlog @
            [(callable (new_request 2 ''fail''), args (new_request 2 ''fail''),
              kwds (new_request 2 ''fail''))] \<rparr>)"
    using full Worker_relays_failure [where invoke = example_invoke and arrived = "[]" and ds = "[]", OF got2 raises2]
    by blast
  then have c2: "Worker_run_body example_invoke (Some 5) False False [] backlog =
       (Waits_to_put
          ((new_request 2 ''fail'')\<lparr> exception := True \<rparr>, Exc_Info (Other_Error ''boom'')),
        backlog\<lparr> requests_queue := [],
                 invoked := [(''work'', [1], []), (''fail'', [2], [])] \<rparr>)"
    by (simp add: fields backlog_fields)
  from got boom room c1 full c2 show ?thesis
    by blast
qed

section \<open>What one call of poll delivers\<close>

text \<open>
  A request on which \<^verbatim>\<open>requestID\<close> has not been set, as every request that the
  constructor returns, is never removed by \<^verbatim>\<open>poll\<close>: the \<^verbatim>\<open>try\<close> block is left
  by an exception and \<^verbatim>\<open>workRequests\<close> is as before.
\<close>

lemma poll_deliver_without_requestID:
  "requestID request = None \<Longrightarrow>
     fst (poll_deliver cb request result s) \<noteq> None \<and>
     workRequests (snd (poll_deliver cb request result s)) = workRequests s"
  by (simp add: poll_deliver_def invoke_callback_def split: option.splits prod.splits)

lemma WorkRequest_init_requestID:
  "WorkRequest_init hash self_id f a kw k c ec = Inr r \<Longrightarrow> requestID r = None"
  by (auto simp: WorkRequest_init_def split: option.splits sum.splits)

text \<open>
  Claim C1. The claim has \<^verbatim>\<open>poll\<close> call the callback and then remove the request
  from \<^verbatim>\<open>workRequests\<close> under the identifier that \<^verbatim>\<open>put_request\<close> stored it
  under, \<^verbatim>\<open>request_id\<close>. The code reads \<^verbatim>\<open>request.requestID\<close> instead. On
  \<open>one_done\<close>, where one request made by the constructor was submitted and served,
  \<^verbatim>\<open>poll(False)\<close> calls the success callback with the request and the result and is
  then left by \<^verbatim>\<open>AttributeError\<close>; the request is still in \<^verbatim>\<open>workRequests\<close>.
\<close>

theorem poll_leaves_request_pending:
  "WorkRequest_init key_hash 0 ''work'' (Some [1]) None (Some (Int_key 1)) (Some ''on_result'')
      (Some ''_handle_thread_exception'') = Inr (new_request 1 ''work'')
   \<and> results_queue one_done = [(new_request 1 ''work'', Value 1)]
   \<and> workRequests one_done = [(1, new_request 1 ''work'')]
   \<and> poll callbacks_return False one_done =
       (Raised AttributeError,
        one_done\<lparr> results_queue := [],
                  calls := [(''on_result'', new_request 1 ''work'', Value 1)] \<rparr>)
   \<and> workRequests (snd (poll callbacks_return False one_done)) = [(1, new_request 1 ''work'')]"
  by (simp add: one_done_fields poll.simps Queue_get_def)
    (simp add: WorkRequest_init_def key_hash_def new_request_def poll_deliver_def
      invoke_callback_def callbacks_return_def)

text \<open>
  Claim C8, as stated, fails. On \<open>two_done\<close> the results queue holds two pairs whose
  requests carry \<^verbatim>\<open>requestID\<close>. A single \<^verbatim>\<open>poll(False)\<close> delivers both, the first
  to the success callback and the second to the exception callback, removes both
  requests from \<^verbatim>\<open>workRequests\<close> and returns when the queue is empty.
\<close>

theorem poll_drains_two_pairs:
  "length (results_queue two_done) = 2
   \<and> poll callbacks_return False two_done =
       (Returned,
        two_done\<lparr> results_queue := [],
                  workRequests := [(3, new_request 3 ''work'')],
                  calls :=
                    [(''on_result'', tagged (new_request 1 ''work''), Value 1),
                     (''_handle_thread_exception'',
                      (tagged (new_request 2 ''fail''))\<lparr> exception := True \<rparr>,
                      Exc_Info (Other_Error ''boom''))] \<rparr>)
   \<and> \<not> length (results_queue two_done) -
         length (results_queue (snd (poll callbacks_return False two_done))) \<le> 1"
  by (simp add: two_done_fields poll.simps Queue_get_def)
    (simp add: new_request_def tagged_def poll_deliver_def invoke_callback_def callbacks_return_def
      poll.simps Queue_get_def)

text \<open>
  Claim C8, amended. \<^verbatim>\<open>poll\<close> is a loop of drain attempts. An attempt raises
  \<^verbatim>\<open>NoResultsPending\<close> on an empty \<^verbatim>\<open>workRequests\<close> and
  \<^verbatim>\<open>NoWorkersAvailable\<close> when blocking without workers; on an empty results queue
  it returns when not blocking and waits when blocking. Otherwise it takes the first
  pair off the queue and delivers it. When the delivery ends without an exception, the
  call goes on exactly as a call on the resulting pool, so one call can deliver several
  pairs. When an exception leaves the delivery, the call ends there with
  \<^verbatim>\<open>workRequests\<close> unchanged: it returns if the exception is \<^verbatim>\<open>queue.Empty\<close> and
  raises it otherwise. \<^verbatim>\<open>wait\<close> calls \<^verbatim>\<open>poll(True)\<close> until it raises: it returns
  on \<^verbatim>\<open>NoResultsPending\<close>, lets any other exception through, calls
  \<^verbatim>\<open>poll(True)\<close> again when it returns, and is suspended when \<^verbatim>\<open>poll\<close> is.
\<close>

theorem poll_keeps_draining:
  "(workRequests s = [] \<longrightarrow> poll cb block s = (Raised NoResultsPending, s))
   \<and> (workRequests s \<noteq> [] \<and> block \<and> workers s = [] \<longrightarrow>
        poll cb block s = (Raised NoWorkersAvailable, s))
   \<and> (workRequests s \<noteq> [] \<and> \<not> (block \<and> workers s = []) \<and> results_queue s = [] \<longrightarrow>
        poll cb block s = (if block then Blocked else Returned, s))
   \<and> (workRequests s \<noteq> [] \<and> \<not> (block \<and> workers s = []) \<and>
       results_queue s = (request, result) # rest \<and>
       poll_deliver cb request result (s\<lparr> results_queue := rest \<rparr>) = (None, t) \<longrightarrow>
        poll cb block s = poll cb block t \<and> results_queue t = rest)
   \<and> (workRequests s \<noteq> [] \<and> \<not> (block \<and> workers s = []) \<and>
       results_queue s = (request, result) # rest \<and>
       poll_deliver cb request result (s\<lparr> results_queue := rest \<rparr>) = (Some e, t) \<longrightarrow>
        poll cb block s = (if e = Queue_Empty then Returned else Raised e, t) \<and>
        results_queue t = rest \<and> workRequests t = workRequests s)
   \<and> (poll cb True s = (Raised NoResultsPending, s') \<longrightarrow> wait cb s = (Returned, s'))
   \<and> (poll cb True s = (Raised e', s') \<and> e' \<noteq> NoResultsPending \<longrightarrow>
        wait cb s = (Raised e', s'))
   \<and> (poll cb True s = (Returned, s') \<longrightarrow> wait cb s = wait cb s')
   \<and> (poll cb True s = (Blocked, s') \<longrightarrow> wait cb s = (Blocked, s'))"
proof -
  have get: "Queue_get ((request, result) # rest) block None = Get_Done (request, result) rest"
    by (simp add: Queue_get_def)
  have none: "poll cb block s = (Raised NoResultsPending, s)" if "workRequests s = []"
    using that by (simp add: poll.simps [of cb block s])
  have idle: "poll cb block s = (Raised NoWorkersAvailable, s)"
    if "workRequests s \<noteq> [] \<and> block \<and> workers s = []"
    using that by (auto simp: poll.simps [of cb True s])
  have dry: "poll cb block s = (if block then Blocked else Returned, s)"
    if "workRequests s \<noteq> [] \<and> \<not> (block \<and> workers s = []) \<and> results_queue s = []"
    using that by (auto simp: poll.simps [of cb block s] Queue_get_def)
  have go: "poll cb block s = poll cb block t \<and> results_queue t = rest"
    if "workRequests s \<noteq> [] \<and> \<not> (block \<and> workers s = []) \<and>
        results_queue s = (request, result) # rest \<and>
        poll_deliver cb request result (s\<lparr> results_queue := rest \<rparr>) = (None, t)"
  proof -
    from that have d: "poll_deliver cb request result (s\<lparr> results_queue := rest \<rparr>) = (None, t)"
      by simp
    from that get d have "poll cb block s = poll cb block t"
      by (auto simp: poll.simps [of cb block s])
    moreover from poll_deliver_results_queue [OF d [symmetric]] have "results_queue t = rest"
      by simp
    ultimately show ?thesis by blast
  qed
  have stop: "poll cb block s = (if e = Queue_Empty then Returned else Raised e, t) \<and>
      results_queue t = rest \<and> workRequests t = workRequests s"
    if "workRequests s \<noteq> [] \<and> \<not> (block \<and> workers s = []) \<and>
        results_queue s = (request, result) # rest \<and>
        poll_deliver cb request result (s\<lparr> results_queue := rest \<rparr>) = (Some e, t)"
  proof -
    from that have d: "poll_deliver cb request result (s\<lparr> results_queue := rest \<rparr>) = (Some e, t)"
      by simp
    from that get d
    have "poll cb block s = (if e = Queue_Empty then Returned else Raised e, t)"
      by (auto simp: poll.simps [of cb block s])
    moreover from poll_deliver_results_queue [OF d [symmetric]] have "results_queue t = rest"
      by simp
    moreover from d have "workRequests t = workRequests s"
      by (auto simp: poll_deliver_def invoke_callback_def
          split: option.splits prod.splits if_splits)
    ultimately show ?thesis by blast
  qed
  have w: "(poll cb True s = (Raised NoResultsPending, s') \<longrightarrow> wait cb s = (Returned, s'))
    \<and> (poll cb True s = (Raised e', s') \<and> e' \<noteq> NoResultsPending \<longrightarrow>
        wait cb s = (Raised e', s'))
    \<and> (poll cb True s = (Returned, s') \<longrightarrow> wait cb s = wait cb s')
    \<and> (poll cb True s = (Blocked, s') \<longrightarrow> wait cb s = (Blocked, s'))"
    by (simp add: wait.simps [of cb s])
  from none idle dry go stop w show ?thesis
    by blast
qed

theorem poll_keeps_draining_witness:
  "poll callbacks_return True (submitted 2 0 []) = (Raised NoResultsPending, submitted 2 0 [])
   \<and> poll callbacks_return True (submitted 0 0 [new_request 1 ''work'']) =
       (Raised NoWorkersAvailable, submitted 0 0 [new_request 1 ''work''])
   \<and> poll callbacks_return False (submitted 2 0 [new_request 1 ''work'']) =
       (Returned, submitted 2 0 [new_request 1 ''work''])
   \<and> poll callbacks_return True (submitted 2 0 [new_request 1 ''work'']) =
       (Blocked, submitted 2 0 [new_request 1 ''work''])
   \<and> poll_deliver callbacks_return (tagged (new_request 1 ''work'')) (Value 1)
        (two_done\<lparr> results_queue := tl (results_queue two_done) \<rparr>) =
       (None,
        two_done\<lparr> results_queue := tl (results_queue two_done),
                  calls := [(''on_result'', tagged (new_request 1 ''work''), Value 1)],
                  workRequests := tl (workRequests two_done) \<rparr>)
   \<and> poll callbacks_return False two_done =
       poll callbacks_return False
         (two_done\<lparr> results_queue := tl (results_queue two_done),
                   calls := [(''on_result'', tagged (new_request 1 ''work''), Value 1)],
                   workRequests := tl (workRequests two_done) \<rparr>)
   \<and> poll_deliver callbacks_return (new_request 1 ''work'') (Value 1)
        (one_done\<lparr> results_queue := [] \<rparr>) =
       (Some AttributeError,
        one_done\<lparr> results_queue := [],
                  calls := [(''on_result'', new_request 1 ''work'', Value 1)] \<rparr>)
   \<and> poll callbacks_return False one_done =
       (Raised AttributeError,
        one_done\<lparr> results_queue := [],
                  calls := [(''on_result'', new_request 1 ''work'', Value 1)] \<rparr>)
   \<and> wait callbacks_return (submitted 2 0 []) = (Returned, submitted 2 0 [])
   \<and> wait callbacks_return one_done =
       (Raised AttributeError,
        one_done\<lparr> results_queue := [],
                  calls := [(''on_result'', new_request 1 ''work'', Value 1)] \<rparr>)
   \<and> poll callbacks_raise_Empty True one_done =
       (Returned,
        one_done\<lparr> results_queue := [],
                  calls := [(''on_result'', new_request 1 ''work'', Value 1)] \<rparr>)
   \<and> wait callbacks_raise_Empty one_done =
       wait callbacks_raise_Empty
         (one_done\<lparr> results_queue := [],
                   calls := [(''on_result'', new_request 1 ''work'', Value 1)] \<rparr>)
   \<and> wait callbacks_return (submitted 2 0 [new_request 1 ''work'']) =
       (Blocked, submitted 2 0 [new_request 1 ''work''])"
proof -
  let ?r1 = "tagged (new_request 1 ''work'')"
  let ?t = "two_done\<lparr> results_queue := tl (results_queue two_done),
                calls := [(''on_result'', ?r1, Value 1)],
                workRequests := tl (workRequests two_done) \<rparr>"
  let ?u = "one_done\<lparr> results_queue := [],
                  calls := [(''on_result'', new_request 1 ''work'', Value 1)] \<rparr>"
  let ?p = "submitted 2 0 [new_request 1 ''work'']"
  have no_requests: "workRequests (submitted 2 0 []) = []"
    by (simp add: example_defs)
  have p0: "poll callbacks_return True (submitted 2 0 []) =
      (Raised NoResultsPending, submitted 2 0 [])"
    using no_requests poll_keeps_draining [where s = "submitted 2 0 []" and cb = callbacks_return and block = True
        and request = "new_request 1 ''work''" and result = "Value 1" and rest = "[]"
        and t = "submitted 2 0 []" and e = Queue_Empty and s' = "submitted 2 0 []" and e' = Queue_Empty]
    by blast
  have alone: "workRequests (submitted 0 0 [new_request 1 ''work'']) \<noteq> [] \<and> True \<and>
      workers (submitted 0 0 [new_request 1 ''work'']) = []"
    by (simp add: example_defs)
  have pw: "poll callbacks_return True (submitted 0 0 [new_request 1 ''work'']) =
      (Raised NoWorkersAvailable, submitted 0 0 [new_request 1 ''work''])"
    using alone
      poll_keeps_draining [where s = "submitted 0 0 [new_request 1 ''work'']" and cb = callbacks_return and block = True
        and request = "new_request 1 ''work''" and result = "Value 1" and rest = "[]"
        and t = "submitted 0 0 [new_request 1 ''work'']" and e = Queue_Empty and s' = "submitted 0 0 [new_request 1 ''work'']" and e' = Queue_Empty]
    by blast
  have dry: "workRequests ?p \<noteq> []" "\<not> (False \<and> workers ?p = [])"
    "\<not> (True \<and> workers ?p = [])" "results_queue ?p = []"
    by (simp_all add: example_defs numeral_2_eq_2)
  have "poll callbacks_return False ?p = (if False then Blocked else Returned, ?p)"
    using dry poll_keeps_draining [where s = ?p and cb = callbacks_return and block = False
        and request = "new_request 1 ''work''" and result = "Value 1" and rest = "[]"
        and t = ?p and e = Queue_Empty and s' = ?p and e' = Queue_Empty]
    by blast
  then have pr: "poll callbacks_return False ?p = (Returned, ?p)"
    by simp
  have "poll callbacks_return True ?p = (if True then Blocked else Returned, ?p)"
    using dry poll_keeps_draining [where s = ?p and cb = callbacks_return and block = True
        and request = "new_request 1 ''work''" and result = "Value 1" and rest = "[]"
        and t = ?p and e = Queue_Empty and s' = ?p and e' = Queue_Empty]
    by blast
  then have pb: "poll callbacks_return True ?p = (Blocked, ?p)"
    by simp
  have two: "workRequests two_done \<noteq> []" "\<not> (False \<and> workers two_done = [])"
    "results_queue two_done = (?r1, Value 1) # tl (results_queue two_done)"
    by (simp_all add: two_done_fields)
  have d2: "poll_deliver callbacks_return ?r1 (Value 1)
      (two_done\<lparr> results_queue := tl (results_queue two_done) \<rparr>) = (None, ?t)"
    by (simp add: two_done_fields)
      (simp add: new_request_def tagged_def poll_deliver_def invoke_callback_def
        callbacks_return_def)
  have c2: "poll callbacks_return False two_done = poll callbacks_return False ?t"
    using two d2
      poll_keeps_draining [where s = two_done and cb = callbacks_return and block = False
        and request = ?r1 and result = "Value 1" and rest = "tl (results_queue two_done)"
        and t = ?t and e = Queue_Empty and s' = two_done and e' = Queue_Empty]
    by blast
  have one: "workRequests one_done \<noteq> []" "\<not> (False \<and> workers one_done = [])"
    "\<not> (True \<and> workers one_done = [])"
    "results_queue one_done = (new_request 1 ''work'', Value 1) # []"
    by (simp_all add: one_done_fields)
  have d1: "poll_deliver callbacks_return (new_request 1 ''work'') (Value 1)
      (one_done\<lparr> results_queue := [] \<rparr>) = (Some AttributeError, ?u)"
    by (simp add: one_done_fields)
      (simp add: new_request_def poll_deliver_def invoke_callback_def callbacks_return_def)
  have "poll callbacks_return False one_done =
      (if AttributeError = Queue_Empty then Returned else Raised AttributeError, ?u)"
    using one d1
      poll_keeps_draining [where s = one_done and cb = callbacks_return and block = False
        and request = "new_request 1 ''work''" and result = "Value 1" and rest = "[]"
        and t = ?u and e = AttributeError and s' = one_done and e' = Queue_Empty]
    by blast
  then have c1: "poll callbacks_return False one_done = (Raised AttributeError, ?u)"
    by simp
  have "poll callbacks_return True one_done =
      (if AttributeError = Queue_Empty then Returned else Raised AttributeError, ?u)"
    using one d1
      poll_keeps_draining [where s = one_done and cb = callbacks_return and block = True
        and request = "new_request 1 ''work''" and result = "Value 1" and rest = "[]"
        and t = ?u and e = AttributeError and s' = one_done and e' = Queue_Empty]
    by blast
  then have p1: "poll callbacks_return True one_done = (Raised AttributeError, ?u)"
    by simp
  have ne: "AttributeError \<noteq> NoResultsPending"
    by simp
  have w1: "wait callbacks_return one_done = (Raised AttributeError, ?u)"
    using p1 ne
      poll_keeps_draining [where s = one_done and cb = callbacks_return and block = True
        and request = "new_request 1 ''work''" and result = "Value 1" and rest = "[]"
        and t = one_done and e = Queue_Empty and s' = ?u and e' = AttributeError]
    by blast
  have w0: "wait callbacks_return (submitted 2 0 []) = (Returned, submitted 2 0 [])"
    using p0
      poll_keeps_draining [where s = "submitted 2 0 []" and cb = callbacks_return and block = True
        and request = "new_request 1 ''work''" and result = "Value 1" and rest = "[]"
        and t = "submitted 2 0 []" and e = Queue_Empty and s' = "submitted 2 0 []" and e' = Queue_Empty]
    by blast
  have de: "poll_deliver callbacks_raise_Empty (new_request 1 ''work'') (Value 1)
      (one_done\<lparr> results_queue := [] \<rparr>) = (Some Queue_Empty, ?u)"
    by (simp add: one_done_fields)
      (simp add: new_request_def poll_deliver_def invoke_callback_def callbacks_raise_Empty_def)
  have "poll callbacks_raise_Empty True one_done =
      (if Queue_Empty = Queue_Empty then Returned else Raised Queue_Empty, ?u)"
    using one de
      poll_keeps_draining [where s = one_done and cb = callbacks_raise_Empty and block = True
        and request = "new_request 1 ''work''" and result = "Value 1" and rest = "[]"
        and t = ?u and e = Queue_Empty and s' = one_done and e' = Queue_Empty]
    by blast
  then have pe: "poll callbacks_raise_Empty True one_done = (Returned, ?u)"
    by simp
  have we: "wait callbacks_raise_Empty one_done = wait callbacks_raise_Empty ?u"
    using pe
      poll_keeps_draining [where s = one_done and cb = callbacks_raise_Empty and block = True
        and request = "new_request 1 ''work''" and result = "Value 1" and rest = "[]"
        and t = one_done and e = Queue_Empty and s' = ?u and e' = Queue_Empty]
    by blast
  have wb: "wait callbacks_return ?p = (Blocked, ?p)"
    using pb poll_keeps_draining [where s = ?p and cb = callbacks_return and block = True
        and request = "new_request 1 ''work''" and result = "Value 1" and rest = "[]"
        and t = ?p and e = Queue_Empty and s' = ?p and e' = Queue_Empty]
    by blast
  from p0 pw pr pb d2 c2 d1 c1 w0 w1 pe we wb show ?thesis
    by blast
qed

section \<open>Running tasks\<close>

lemma finalize_calls_append:
  "finalize_calls task (xs @ ys) = finalize_calls task xs + finalize_calls task ys"
  by (simp add: finalize_calls_def)

lemma process_calls_append:
  "process_calls i (xs @ ys) = process_calls i xs @ process_calls i ys"
  by (simp add: process_calls_def)

lemma execute_result_id:
  "execute reg task = Inr (Some r) \<Longrightarrow> \<exists>sol. r = Result (get_id task) sol"
  by (auto simp: execute_def split: option.splits raised.splits sum.splits)

lemma run_append:
  "fst (run reg pre log) = None \<Longrightarrow>
     run reg (pre @ rest) log = run reg rest (snd (run reg pre log))"
  by (induction pre arbitrary: log) (auto split: sum.splits option.splits)

lemma run_other_tasks:
  "run reg tasks log = (err, log') \<Longrightarrow> task \<notin> set tasks \<Longrightarrow>
     get_id task \<notin> get_id ` set tasks \<Longrightarrow>
     finalize_calls task log' = finalize_calls task log \<and>
     process_calls (get_id task) log' = process_calls (get_id task) log"
proof (induction tasks arbitrary: log)
  case Nil
  then show ?case by simp
next
  case (Cons t ts)
  show ?case
  proof (cases "execute reg t")
    case (Inl e)
    with Cons.prems show ?thesis by simp
  next
    case (Inr ro)
    show ?thesis
    proof (cases ro)
      case None
      with Inr Cons.prems have "run reg ts (log @ [Finalize_task t]) = (err, log')"
        by simp
      from Cons.IH [OF this] Cons.prems show ?thesis
        by (auto simp: finalize_calls_append process_calls_append finalize_calls_def
            process_calls_def)
    next
      case (Some r)
      from execute_result_id [of reg t r] Inr Some obtain sol where r: "r = Result (get_id t) sol"
        by auto
      from Some Inr Cons.prems have "run reg ts (log @ [Process_result r]) = (err, log')"
        by simp
      from Cons.IH [OF this] Cons.prems r show ?thesis
        by (auto simp: finalize_calls_append process_calls_append finalize_calls_def
            process_calls_def)
    qed
  qed
qed

text \<open>
  Claim C2. Let \<^verbatim>\<open>run\<close> work through tasks with distinct identifiers and reach
  \<open>task\<close>, no earlier task having ended the run. If \<^verbatim>\<open>execute\<close> returns
  \<^verbatim>\<open>None\<close> for the task, the pipeline's log of the whole run has exactly one
  \<^verbatim>\<open>finalize_task(task)\<close> and no \<^verbatim>\<open>process_result\<close> for the task's identifier;
  if it returns a result, this is \<^verbatim>\<open>Result(task.get_id(), solution)\<close>, the log has
  exactly that one \<^verbatim>\<open>process_result\<close> for the identifier and no
  \<^verbatim>\<open>finalize_task(task)\<close>. \<^verbatim>\<open>execute\<close> returns \<^verbatim>\<open>None\<close> when loading or
  solving raises an \<^verbatim>\<open>Exception\<close>, and the result with the solver's solution when
  loading, solving and \<^verbatim>\<open>get_solution\<close> all return.
\<close>

theorem run_one_call_per_task:
  assumes ids: "distinct (map get_id (pre @ task # post))"
    and reached: "fst (run reg pre []) = None"
    and whole: "run reg (pre @ task # post) [] = (err, log)"
  shows "(execute reg task = Inr None \<longrightarrow>
            finalize_calls task log = 1 \<and> process_calls (get_id task) log = [])
         \<and> (execute reg task = Inr (Some r) \<longrightarrow>
            (\<exists>sol. r = Result (get_id task) sol) \<and>
            process_calls (get_id task) log = [r] \<and> finalize_calls task log = 0)
         \<and> (reg (get_solver_id task) = Some solver \<and>
             (load_model_params solver (get_model_parameters task) = Some (Exception_instance m) \<or>
              load_model_params solver (get_model_parameters task) = None \<and>
              solve solver (get_model_parameters task) = Some (Exception_instance m)) \<longrightarrow>
            execute reg task = Inr None)
         \<and> (reg (get_solver_id task) = Some solver \<and>
             load_model_params solver (get_model_parameters task) = None \<and>
             solve solver (get_model_parameters task) = None \<and>
             get_solution solver (get_model_parameters task) = Inr sol \<longrightarrow>
            execute reg task = Inr (Some (Result (get_id task) sol)))"
proof -
  obtain log1 where pre: "run reg pre [] = (None, log1)"
    using reached by (cases "run reg pre []") auto
  from ids have notin_pre: "task \<notin> set pre" "get_id task \<notin> get_id ` set pre"
    and notin_post: "task \<notin> set post" "get_id task \<notin> get_id ` set post"
    by auto
  from run_other_tasks [OF pre notin_pre]
  have l1: "finalize_calls task log1 = 0" "process_calls (get_id task) log1 = []"
    by (simp_all add: finalize_calls_def process_calls_def)
  from run_append [OF reached, of "task # post"] pre whole
  have rest: "run reg (task # post) log1 = (err, log)"
    by simp
  have none: "finalize_calls task log = 1 \<and> process_calls (get_id task) log = []"
    if ex: "execute reg task = Inr None"
  proof -
    from ex rest have "run reg post (log1 @ [Finalize_task task]) = (err, log)"
      by simp
    from run_other_tasks [OF this notin_post] l1 show ?thesis
      by (simp add: finalize_calls_append process_calls_append)
        (simp add: finalize_calls_def process_calls_def)
  qed
  have some: "(\<exists>sol. r = Result (get_id task) sol) \<and>
      process_calls (get_id task) log = [r] \<and> finalize_calls task log = 0"
    if ex: "execute reg task = Inr (Some r)"
  proof -
    from execute_result_id [OF ex] obtain sol where r: "r = Result (get_id task) sol"
      by auto
    from ex rest have "run reg post (log1 @ [Process_result r]) = (err, log)"
      by simp
    from run_other_tasks [OF this notin_post] l1 r show ?thesis
      by (simp add: finalize_calls_append process_calls_append)
        (simp add: finalize_calls_def process_calls_def)
  qed
  have fails: "execute reg task = Inr None"
    if "reg (get_solver_id task) = Some solver \<and>
         (load_model_params solver (get_model_parameters task) = Some (Exception_instance m) \<or>
          load_model_params solver (get_model_parameters task) = None \<and>
          solve solver (get_model_parameters task) = Some (Exception_instance m))"
    using that by (auto simp: execute_def)
  have solves: "execute reg task = Inr (Some (Result (get_id task) sol))"
    if "reg (get_solver_id task) = Some solver \<and>
         load_model_params solver (get_model_parameters task) = None \<and>
         solve solver (get_model_parameters task) = None \<and>
         get_solution solver (get_model_parameters task) = Inr sol"
    using that by (simp add: execute_def)
  from none some fails solves show ?thesis
    by blast
qed

theorem run_one_call_per_task_witness:
  "distinct (map get_id [new_task 1 [] 1, new_task 2 [3, 4] 1])
   \<and> run example_registry [new_task 1 [] 1, new_task 2 [3, 4] 1] [] =
       (None, [Finalize_task (new_task 1 [] 1), Process_result (Result 2 7)])
   \<and> solve example_solver (get_model_parameters (new_task 1 [] 1)) =
       Some (Exception_instance ''infeasible'')
   \<and> execute example_registry (new_task 1 [] 1) = Inr None
   \<and> finalize_calls (new_task 1 [] 1)
        [Finalize_task (new_task 1 [] 1), Process_result (Result 2 (7 :: int))] = 1
   \<and> process_calls 1
        [Finalize_task (new_task 1 [] 1), Process_result (Result 2 (7 :: int))] = []
   \<and> get_solution example_solver (get_model_parameters (new_task 2 [3, 4] 1)) = Inr 7
   \<and> execute example_registry (new_task 2 [3, 4] 1) = Inr (Some (Result 2 7))
   \<and> process_calls 2
        [Finalize_task (new_task 1 [] 1), Process_result (Result 2 (7 :: int))] = [Result 2 7]
   \<and> finalize_calls (new_task 2 [3, 4] 1)
        [Finalize_task (new_task 1 [] 1), Process_result (Result 2 (7 :: int))] = 0"
proof -
  let ?t1 = "new_task 1 [] 1" and ?t2 = "new_task 2 [3, 4] 1"
  let ?log = "[Finalize_task ?t1, Process_result (Result 2 (7 :: int))]"
  have ids1: "distinct (map get_id ([] @ ?t1 # [?t2]))"
    and ids2: "distinct (map get_id ([?t1] @ ?t2 # []))"
    and ids: "distinct (map get_id [?t1, ?t2])"
    by (simp_all add: new_task_def)
  have whole: "run example_registry [?t1, ?t2] [] = (None, ?log)"
    by (simp add: executor_example_defs)
  then have whole1: "run example_registry ([] @ ?t1 # [?t2]) [] = (None, ?log)"
    and whole2: "run example_registry ([?t1] @ ?t2 # []) [] = (None, ?log)"
    by simp_all
  have reached1: "fst (run example_registry [] ([] :: (int list, int) pipeline_call list)) = None"
    by simp
  have reached2: "fst (run example_registry [?t1] []) = None"
    by (simp add: executor_example_defs)
  have known: "example_registry (get_solver_id ?t1) = Some example_solver"
    "example_registry (get_solver_id ?t2) = Some example_solver"
    by (simp_all add: example_registry_def new_task_def)
  have loads: "load_model_params example_solver (get_model_parameters ?t1) = None"
    "load_model_params example_solver (get_model_parameters ?t2) = None"
    by (simp_all add: example_solver_def)
  have fails: "solve example_solver (get_model_parameters ?t1) =
      Some (Exception_instance ''infeasible'')"
    by (simp add: example_solver_def new_task_def)
  have solves: "solve example_solver (get_model_parameters ?t2) = None"
    and solution: "get_solution example_solver (get_model_parameters ?t2) = Inr 7"
    by (simp_all add: example_solver_def new_task_def)
  note first = run_one_call_per_task [OF ids1 reached1 whole1, where solver = example_solver
      and m = "''infeasible''"]
  note second = run_one_call_per_task [OF ids2 reached2 whole2, where solver = example_solver
      and sol = 7 and r = "Result 2 7"]
  have e1: "execute example_registry ?t1 = Inr None"
    using first known loads fails by blast
  have c1: "finalize_calls ?t1 ?log = 1 \<and> process_calls (get_id ?t1) ?log = []"
    using first e1 by blast
  have "execute example_registry ?t2 = Inr (Some (Result (get_id ?t2) 7))"
    using second known loads solves solution by blast
  then have e2: "execute example_registry ?t2 = Inr (Some (Result 2 7))"
    by (simp add: new_task_def)
  have c2: "process_calls (get_id ?t2) ?log = [Result 2 7] \<and> finalize_calls ?t2 ?log = 0"
    using second e2 by blast
  have id1: "get_id ?t1 = 1" and id2: "get_id ?t2 = 2"
    by (simp_all add: new_task_def)
  from ids whole fails e1 c1 solution e2 c2 show ?thesis
    by (simp add: id1 id2)
qed

text \<open>
  Claim C3. For a task whose solver id the registry does not know, \<^verbatim>\<open>execute\<close>
  raises the executor's \<^verbatim>\<open>Error\<close>. \<^verbatim>\<open>run\<close>, having reached the task, is left by
  that exception, and the pipeline's log is the one the earlier tasks produced: neither
  \<^verbatim>\<open>finalize_task\<close> nor \<^verbatim>\<open>process_result\<close> is called for the task, nor for any
  task after it.
\<close>

theorem run_unknown_backend:
  assumes unknown: "get_instance_of (get_solver_id task) = None"
    and reached: "fst (run get_instance_of pre log) = None"
  shows "execute get_instance_of task = Inl (Error (get_solver_id task))
         \<and> run get_instance_of (task # post) log = (Some (Error (get_solver_id task)), log)
         \<and> run get_instance_of (pre @ task # post) log =
             (Some (Error (get_solver_id task)), snd (run get_instance_of pre log))"
proof -
  from unknown have e: "execute get_instance_of task = Inl (Error (get_solver_id task))"
    by (simp add: execute_def)
  then show ?thesis
    using run_append [OF reached, of "task # post"] by simp
qed

theorem run_unknown_backend_witness:
  "example_registry (get_solver_id (new_task 3 [5] 9)) = None
   \<and> fst (run example_registry [new_task 1 [] 1, new_task 2 [3, 4] 1] []) = None
   \<and> execute example_registry (new_task 3 [5] 9) = Inl (Error 9)
   \<and> run example_registry
        [new_task 1 [] 1, new_task 2 [3, 4] 1, new_task 3 [5] 9, new_task 4 [6] 1] [] =
       (Some (Error 9), [Finalize_task (new_task 1 [] 1), Process_result (Result 2 7)])"
proof -
  let ?t1 = "new_task 1 [] 1" and ?t2 = "new_task 2 [3, 4] 1"
  let ?t3 = "new_task 3 [5] 9" and ?t4 = "new_task 4 [6] 1"
  have unknown: "example_registry (get_solver_id ?t3) = None"
    by (simp add: example_registry_def new_task_def)
  have before: "run example_registry [?t1, ?t2] [] =
      (None, [Finalize_task ?t1, Process_result (Result 2 7)])"
    by (simp add: executor_example_defs)
  then have reached: "fst (run example_registry [?t1, ?t2] []) = None"
    by simp
  have sid: "get_solver_id ?t3 = 9"
    by (simp add: new_task_def)
  from run_unknown_backend [OF unknown reached, of "[?t4]"] before unknown reached
  show ?thesis
    by (simp add: sid)
qed

end
